theory Spec2Isabelle
  imports Main
begin

section \<open>Python values\<close>

text \<open>
  The payload of an event (\<^verbatim>\<open>event.get_json()\<close>) and the body of a request
  (\<^verbatim>\<open>request.get_json()\<close>) are decoded JSON: any of Python's \<^verbatim>\<open>None\<close>, \<^verbatim>\<open>bool\<close>,
  \<^verbatim>\<open>int\<close>, \<^verbatim>\<open>float\<close>, \<^verbatim>\<open>str\<close>, \<^verbatim>\<open>list\<close> and \<^verbatim>\<open>dict\<close>. The type annotations of the
  source (\<^verbatim>\<open>data: dict\<close>, \<^verbatim>\<open>event_id: str\<close>) are not enforced at run time, so the model
  takes every such value where the source takes one. A dict is an association list in
  insertion order; \<open>JFloat m e\<close> stands for a float, which the code never inspects.
  A \<open>char\<close> stands for one code point of a Python \<^verbatim>\<open>str\<close>.
\<close>

datatype json =
    JNull
  | JBool bool
  | JInt int
  | JFloat int int
  | JStr string
  | JList "json list"
  | JObj "(string \<times> json) list"

fun type_name :: "json \<Rightarrow> string" where
  "type_name JNull = ''NoneType''"
| "type_name (JBool _) = ''bool''"
| "type_name (JInt _) = ''int''"
| "type_name (JFloat _ _) = ''float''"
| "type_name (JStr _) = ''str''"
| "type_name (JList _) = ''list''"
| "type_name (JObj _) = ''dict''"

definition quoted :: "string \<Rightarrow> string" where
  "quoted s = CHR 0x27 # s @ [CHR 0x27]"

text \<open>
  The exceptions the code meets, each with the text of \<^verbatim>\<open>str(e)\<close>. \<open>HttpResponseError\<close>
  is azure-core's, with its \<^verbatim>\<open>status_code\<close> (which may be \<^verbatim>\<open>None\<close>); \<open>OtherException\<close> is
  any other subclass of \<^verbatim>\<open>Exception\<close>.
\<close>

datatype py_exn =
    AttributeError string
  | TypeError string
  | KeyError string
  | IndexError string
  | ValueError string
  | HttpResponseError string "int option"
  | OtherException string

fun str_exn :: "py_exn \<Rightarrow> string" where
  "str_exn (AttributeError m) = m"
| "str_exn (TypeError m) = m"
| "str_exn (KeyError k) = quoted k"
| "str_exn (IndexError m) = m"
| "str_exn (ValueError m) = m"
| "str_exn (HttpResponseError m _) = m"
| "str_exn (OtherException m) = m"

text \<open>\<^verbatim>\<open>d.get(k, default)\<close>: only a dict has the method.\<close>

definition dict_get :: "(string \<times> json) list \<Rightarrow> string \<Rightarrow> json \<Rightarrow> json" where
  "dict_get kvs k dflt = (case map_of kvs k of Some v \<Rightarrow> v | None \<Rightarrow> dflt)"

definition py_get_default :: "json \<Rightarrow> string \<Rightarrow> json \<Rightarrow> py_exn + json" where
  "py_get_default d k dflt =
     (case d of
        JObj kvs \<Rightarrow> Inr (dict_get kvs k dflt)
      | _ \<Rightarrow> Inl (AttributeError (quoted (type_name d) @ '' object has no attribute '' @ quoted ''get'')))"

text \<open>\<^verbatim>\<open>d.get(k)\<close>: the default is \<^verbatim>\<open>None\<close>.\<close>

definition py_get :: "json \<Rightarrow> string \<Rightarrow> py_exn + json" where
  "py_get d k = py_get_default d k JNull"

text \<open>
  \<^verbatim>\<open>v[:20]\<close>: a \<^verbatim>\<open>str\<close> and a \<^verbatim>\<open>list\<close> are sliced; a dict rejects the slice as a key
  (\<^verbatim>\<open>TypeError: unhashable type: 'slice'\<close> up to Python 3.11); nothing else is
  subscriptable.
\<close>

fun py_slice20 :: "json \<Rightarrow> py_exn + json" where
  "py_slice20 (JStr s) = Inr (JStr (take 20 s))"
| "py_slice20 (JList xs) = Inr (JList (take 20 xs))"
| "py_slice20 (JObj kvs) = Inl (TypeError (''unhashable type: '' @ quoted ''slice''))"
| "py_slice20 v = Inl (TypeError (quoted (type_name v) @ '' object is not subscriptable''))"

text \<open>
  \<^verbatim>\<open>for x in v\<close>: a list gives its elements, a \<^verbatim>\<open>str\<close> its characters, a dict its keys;
  nothing else is iterable.
\<close>

fun py_iter :: "json \<Rightarrow> py_exn + json list" where
  "py_iter (JList xs) = Inr xs"
| "py_iter (JStr s) = Inr (map (\<lambda>c. JStr [c]) s)"
| "py_iter (JObj kvs) = Inr (map (\<lambda>kv. JStr (fst kv)) kvs)"
| "py_iter v = Inl (TypeError (quoted (type_name v) @ '' object is not iterable''))"

section \<open>The world of the function app\<close>

text \<open>
  A log record is its level and the pieces of its f-string: literal text, a formatted
  value, or the \<^verbatim>\<open>json.dumps\<close> of a value. \<^verbatim>\<open>logger.exception\<close> logs at level ERROR with
  the traceback attached.
\<close>

datatype level = INFO | WARNING | ERROR | ERROR_TRACEBACK

datatype frag = Lit string | Val json | Dumps json

type_synonym log_record = "level \<times> frag list"

text \<open>
  What an invocation reads and changes. \<open>COSMOS_ENDPOINT\<close> is the module constant read
  from the environment; \<open>utcnow\<close> is \<^verbatim>\<open>datetime.utcnow().isoformat()\<close> (read at most once
  per invocation); \<open>connect_fault\<close> is what constructing the \<^verbatim>\<open>CosmosClient\<close> raises, if
  anything; \<open>request_fault\<close> is what a call on the store client raises, if anything, as a
  function of the call: the \<^verbatim>\<open>azure.cosmos\<close> client, which is not part of the sources, checks
  an item before it sends it (it refuses an \<^verbatim>\<open>id\<close> that is not a string or holds an illegal
  character), and the request itself may fail; \<open>clients_constructed\<close> counts the client
  constructions; \<open>store\<close> holds the items of the document store by container name;
  \<open>logged\<close> is the log so far.
\<close>

datatype store_call = UpsertItem string json | ListContainers

record world =
  COSMOS_ENDPOINT :: "string option"
  utcnow :: string
  connect_fault :: "py_exn option"
  request_fault :: "store_call \<Rightarrow> py_exn option"
  clients_constructed :: nat
  store :: "(string \<times> json) list"
  logged :: "log_record list"

text \<open>
  A computation over a state \<open>'s\<close> returns a value or raises, and leaves a state either
  way. \<open>'a io\<close> is a computation of the function app.
\<close>

type_synonym ('a, 's) run = "'s \<Rightarrow> (py_exn + 'a) \<times> 's"

type_synonym 'a io = "('a, world) run"

definition ret :: "'a \<Rightarrow> ('a, 's) run" where
  "ret x = (\<lambda>w. (Inr x, w))"

definition lift :: "py_exn + 'a \<Rightarrow> ('a, 's) run" where
  "lift r = (\<lambda>w. (r, w))"

definition bind_io :: "('a, 's) run \<Rightarrow> ('a \<Rightarrow> ('b, 's) run) \<Rightarrow> ('b, 's) run" where
  "bind_io m f = (\<lambda>w. case m w of (Inl e, w') \<Rightarrow> (Inl e, w') | (Inr x, w') \<Rightarrow> f x w')"

definition reading :: "('s \<Rightarrow> 'a) \<Rightarrow> ('a, 's) run" where
  "reading g = (\<lambda>w. (Inr (g w), w))"

text \<open>\<^verbatim>\<open>try: m except Exception as e: h(e)\<close>\<close>

definition try_except :: "('a, 's) run \<Rightarrow> (py_exn \<Rightarrow> ('a, 's) run) \<Rightarrow> ('a, 's) run" where
  "try_except m h = (\<lambda>w. case m w of (Inl e, w') \<Rightarrow> h e w' | (Inr x, w') \<Rightarrow> (Inr x, w'))"

definition logger :: "level \<Rightarrow> frag list \<Rightarrow> unit io" where
  "logger lv msg = (\<lambda>w. (Inr (), w\<lparr>logged := logged w @ [(lv, msg)]\<rparr>))"

text \<open>\<^verbatim>\<open>if COSMOS_ENDPOINT:\<close> holds for a non-empty string.\<close>

definition configured :: "world \<Rightarrow> bool" where
  "configured w = (case COSMOS_ENDPOINT w of None \<Rightarrow> False | Some s \<Rightarrow> s \<noteq> [])"

section \<open>The document store\<close>

text \<open>
  Modelled from the spec: the document store itself, a managed service behind the
  \<^verbatim>\<open>azure.cosmos\<close> client, is not part of the sources. The spec (4.4) gives its contract:
  the id of a record and its partition key together address one slot, and an upsert
  inserts if the slot is empty and overwrites if it is taken. The partition key of a
  container's items is the field the source marks \<^verbatim>\<open># Partition key\<close>: \<^verbatim>\<open>threadId\<close> in
  \<^verbatim>\<open>chat-history\<close>, \<^verbatim>\<open>callId\<close> in \<^verbatim>\<open>call-logs\<close>.
\<close>

definition item_field :: "json \<Rightarrow> string \<Rightarrow> json option" where
  "item_field item k = (case item of JObj kvs \<Rightarrow> map_of kvs k | _ \<Rightarrow> None)"

definition partition_key_path :: "string \<Rightarrow> string" where
  "partition_key_path c = (if c = ''chat-history'' then ''threadId'' else ''callId'')"

definition slot :: "string \<Rightarrow> json \<Rightarrow> string \<times> json option \<times> json option" where
  "slot c item = (c, item_field item ''id'', item_field item (partition_key_path c))"

definition store_upsert :: "string \<Rightarrow> json \<Rightarrow> (string \<times> json) list \<Rightarrow> (string \<times> json) list" where
  "store_upsert c item s = filter (\<lambda>ci. slot (fst ci) (snd ci) \<noteq> slot c item) s @ [(c, item)]"

definition slot_items :: "string \<times> json option \<times> json option \<Rightarrow> (string \<times> json) list \<Rightarrow> json list" where
  "slot_items k s = map snd (filter (\<lambda>ci. slot (fst ci) (snd ci) = k) s)"

text \<open>
  \<^verbatim>\<open>get_cosmos_client()\<close> constructs a credential and a client; the handles
  \<^verbatim>\<open>get_database_client\<close> and \<^verbatim>\<open>get_container_client\<close> are built without a request, so a
  container handle is its name. \<^verbatim>\<open>upsert_item\<close> raises what the client raises for this
  container and item, and writes the item otherwise.
\<close>

definition get_cosmos_client :: "unit io" where
  "get_cosmos_client = (\<lambda>w.
     let w' = w\<lparr>clients_constructed := Suc (clients_constructed w)\<rparr>
     in case connect_fault w of Some e \<Rightarrow> (Inl e, w') | None \<Rightarrow> (Inr (), w'))"

definition upsert_item :: "string \<Rightarrow> json \<Rightarrow> unit io" where
  "upsert_item c item = (\<lambda>w.
     case request_fault w (UpsertItem c item) of
       Some e \<Rightarrow> (Inl e, w)
     | None \<Rightarrow> (Inr (), w\<lparr>store := store_upsert c item (store w)\<rparr>))"

definition list_containers :: "unit io" where
  "list_containers = (\<lambda>w.
     case request_fault w ListContainers of Some e \<Rightarrow> (Inl e, w) | None \<Rightarrow> (Inr (), w))"

section \<open>Event handlers (functions/function\_app.py)\<close>

text \<open>
  The event object the host passes to a function. Only \<^verbatim>\<open>id\<close>, \<^verbatim>\<open>event_type\<close> and
  \<^verbatim>\<open>get_json()\<close> are read; the attributes hold whatever the host decoded.
\<close>

record event =
  event_id :: json
  event_type :: json
  event_data :: json

definition get_json :: "event \<Rightarrow> json" where
  "get_json ev = event_data ev"

definition sms_try :: "event \<Rightarrow> unit io" where
  "sms_try ev =
     (let data = get_json ev in
      bind_io (lift (py_get data ''messageId'')) (\<lambda>message_id.
      bind_io (lift (py_get data ''from'')) (\<lambda>from.
      bind_io (lift (py_get data ''to'')) (\<lambda>to.
      bind_io (lift (py_get data ''message'')) (\<lambda>message.
      bind_io (lift (py_get data ''receivedTimestamp'')) (\<lambda>received.
      bind_io (reading utcnow) (\<lambda>now.
      let sms_data = JObj
            [(''id'', event_id ev),
             (''type'', JStr ''sms_received''),
             (''messageId'', message_id),
             (''from'', from),
             (''to'', to),
             (''message'', message),
             (''receivedAt'', received),
             (''processedAt'', JStr now)] in
      bind_io (logger INFO [Lit ''SMS from '', Val from, Lit '' to '', Val to]) (\<lambda>_.
      bind_io (reading configured) (\<lambda>conf.
      if conf then
        bind_io get_cosmos_client (\<lambda>_.
        bind_io (lift (py_get data ''messageId'')) (\<lambda>call_id.
        bind_io (upsert_item ''call-logs'' (JObj
            [(''id'', event_id ev),
             (''callId'', call_id),
             (''type'', JStr ''sms''),
             (''direction'', JStr ''inbound''),
             (''data'', sms_data)])) (\<lambda>_.
        logger INFO [Lit ''SMS logged to Cosmos DB: '', Val (event_id ev)])))
      else ret ())))))))))"

definition process_sms_received :: "event \<Rightarrow> unit io" where
  "process_sms_received ev =
     bind_io (logger INFO [Lit ''SMS Received Event: '', Val (event_id ev)]) (\<lambda>_.
     try_except (sms_try ev) (\<lambda>e.
       bind_io (logger ERROR_TRACEBACK [Lit ''Error processing SMS event: '', Lit (str_exn e)]) (\<lambda>_.
       lift (Inl e))))"

definition process_chat_message :: "json \<Rightarrow> json \<Rightarrow> unit io" where
  "process_chat_message eid data =
     bind_io (lift (py_get data ''threadId'')) (\<lambda>thread_id.
     bind_io (lift (py_get data ''senderId'')) (\<lambda>sender_id.
     bind_io (lift (py_get data ''messageBody'')) (\<lambda>message.
     bind_io (lift (py_slice20 thread_id)) (\<lambda>thread20.
     bind_io (lift (py_slice20 sender_id)) (\<lambda>sender20.
     bind_io (logger INFO [Lit ''Chat message in thread '', Val thread20, Lit ''... from '',
                           Val sender20, Lit ''...'']) (\<lambda>_.
     bind_io (reading configured) (\<lambda>conf.
     if conf then
       bind_io get_cosmos_client (\<lambda>_.
       bind_io (lift (py_get data ''transactionId'')) (\<lambda>transaction_id.
       bind_io (reading utcnow) (\<lambda>now.
       bind_io (upsert_item ''chat-history'' (JObj
           [(''id'', eid),
            (''threadId'', thread_id),
            (''senderId'', sender_id),
            (''message'', message),
            (''timestamp'', transaction_id),
            (''processedAt'', JStr now)])) (\<lambda>_.
       logger INFO [Lit ''Chat message logged: '', Val eid]))))
     else ret ())))))))"

definition process_thread_created :: "json \<Rightarrow> json \<Rightarrow> unit io" where
  "process_thread_created eid data =
     bind_io (lift (py_get data ''threadId'')) (\<lambda>thread_id.
     bind_io (lift (py_get data ''createdBy'')) (\<lambda>created_by.
     bind_io (lift (py_slice20 thread_id)) (\<lambda>thread20.
     bind_io (lift (py_slice20 created_by)) (\<lambda>created20.
     logger INFO [Lit ''Chat thread created: '', Val thread20, Lit ''... by '',
                  Val created20, Lit ''...'']))))"

fun participants_loop :: "json \<Rightarrow> json list \<Rightarrow> unit io" where
  "participants_loop thread_id [] = ret ()"
| "participants_loop thread_id (p # ps) =
     bind_io (lift (py_slice20 thread_id)) (\<lambda>thread20.
     bind_io (lift (py_get_default p ''id'' (JStr ''''))) (\<lambda>pid.
     bind_io (lift (py_slice20 pid)) (\<lambda>pid20.
     bind_io (logger INFO [Lit ''Participant added to '', Val thread20, Lit ''...: '',
                           Val pid20, Lit ''...'']) (\<lambda>_.
     participants_loop thread_id ps))))"

definition process_participant_added :: "json \<Rightarrow> json \<Rightarrow> unit io" where
  "process_participant_added eid data =
     bind_io (lift (py_get data ''threadId'')) (\<lambda>thread_id.
     bind_io (lift (py_get_default data ''participantsAdded'' (JList []))) (\<lambda>participants.
     bind_io (lift (py_iter participants)) (\<lambda>ps.
     participants_loop thread_id ps)))"

definition chat_try :: "event \<Rightarrow> unit io" where
  "chat_try ev =
     (let data = get_json ev in
      if event_type ev = JStr ''Microsoft.Communication.ChatMessageReceived'' then
        process_chat_message (event_id ev) data
      else if event_type ev = JStr ''Microsoft.Communication.ChatThreadCreated'' then
        process_thread_created (event_id ev) data
      else if event_type ev = JStr ''Microsoft.Communication.ChatParticipantAdded'' then
        process_participant_added (event_id ev) data
      else
        logger WARNING [Lit ''Unknown chat event type: '', Val (event_type ev)])"

definition process_chat_event :: "event \<Rightarrow> unit io" where
  "process_chat_event ev =
     bind_io (logger INFO [Lit ''Chat Event: '', Val (event_type ev), Lit '', ID: '',
                           Val (event_id ev)]) (\<lambda>_.
     try_except (chat_try ev) (\<lambda>e.
       bind_io (logger ERROR_TRACEBACK [Lit ''Error processing chat event: '', Lit (str_exn e)]) (\<lambda>_.
       lift (Inl e))))"

fun chunks_loop :: "json list \<Rightarrow> unit io" where
  "chunks_loop [] = ret ()"
| "chunks_loop (chunk # chunks) =
     bind_io (lift (py_get chunk ''contentLocation'')) (\<lambda>content_location.
     bind_io (lift (py_get chunk ''deleteLocation'')) (\<lambda>delete_location.
     bind_io (logger INFO [Lit ''Recording available at: '', Val content_location]) (\<lambda>_.
     chunks_loop chunks)))"

definition recording_try :: "event \<Rightarrow> unit io" where
  "recording_try ev =
     (let data = get_json ev in
      bind_io (lift (py_get_default data ''recordingStorageInfo'' (JObj []))) (\<lambda>recording_status.
      bind_io (lift (py_get_default recording_status ''recordingChunks'' (JList []))) (\<lambda>recording_chunks.
      bind_io (lift (py_iter recording_chunks)) (\<lambda>chunks.
      bind_io (chunks_loop chunks) (\<lambda>_.
      bind_io (reading configured) (\<lambda>conf.
      if conf then
        bind_io get_cosmos_client (\<lambda>_.
        bind_io (lift (py_get data ''serverCallId'')) (\<lambda>call_id.
        bind_io (reading utcnow) (\<lambda>now.
        bind_io (upsert_item ''call-logs'' (JObj
            [(''id'', event_id ev),
             (''callId'', call_id),
             (''type'', JStr ''recording''),
             (''status'', JStr ''available''),
             (''chunks'', recording_chunks),
             (''processedAt'', JStr now)])) (\<lambda>_.
        logger INFO [Lit ''Recording event logged: '', Val (event_id ev)]))))
      else ret ()))))))"

definition process_recording_event :: "event \<Rightarrow> unit io" where
  "process_recording_event ev =
     bind_io (logger INFO [Lit ''Recording Event: '', Val (event_id ev)]) (\<lambda>_.
     try_except (recording_try ev) (\<lambda>e.
       bind_io (logger ERROR_TRACEBACK [Lit ''Error processing recording event: '', Lit (str_exn e)]) (\<lambda>_.
       lift (Inl e))))"

text \<open>
  The Cosmos DB check of \<^verbatim>\<open>health_check\<close>: the value it leaves in
  \<^verbatim>\<open>health_status["cosmos_db"]\<close>.
\<close>

definition check_cosmos :: "string io" where
  "check_cosmos =
     bind_io (reading configured) (\<lambda>conf.
     if conf then
       try_except
         (bind_io get_cosmos_client (\<lambda>_.
          bind_io list_containers (\<lambda>_.
          ret ''healthy'')))
         (\<lambda>e.
          bind_io (logger ERROR [Lit ''Cosmos DB health check failed: '', Lit (str_exn e)]) (\<lambda>_.
          ret (''unhealthy: '' @ str_exn e)))
     else ret ''not configured'')"

text \<open>
  \<^verbatim>\<open>health_check\<close> returns nothing; the model returns the \<^verbatim>\<open>health_status\<close> dict it has
  logged.
\<close>

definition health_check :: "json io" where
  "health_check =
     bind_io (logger INFO [Lit ''Running health check...'']) (\<lambda>_.
     bind_io (reading utcnow) (\<lambda>now.
     bind_io check_cosmos (\<lambda>cosmos_db.
     let health_status = JObj
           [(''timestamp'', JStr now),
            (''cosmos_db'', JStr cosmos_db),
            (''key_vault'', JStr ''unknown'')] in
     bind_io (logger INFO [Lit ''Health check complete: '', Dumps health_status]) (\<lambda>_.
     ret health_status))))"


section \<open>The REST facade (app.py)\<close>

text \<open>
  \<^verbatim>\<open>if not data\<close>: \<^verbatim>\<open>None\<close>, \<^verbatim>\<open>False\<close>, zero and the empty string, list and dict are
  false.
\<close>

fun py_truthy :: "json \<Rightarrow> bool" where
  "py_truthy JNull = False"
| "py_truthy (JBool b) = b"
| "py_truthy (JInt n) = (n \<noteq> 0)"
| "py_truthy (JFloat m e) = (m \<noteq> 0)"
| "py_truthy (JStr s) = (s \<noteq> [])"
| "py_truthy (JList xs) = (xs \<noteq> [])"
| "py_truthy (JObj kvs) = (kvs \<noteq> [])"

fun substring_of :: "string \<Rightarrow> string \<Rightarrow> bool" where
  "substring_of k [] = (k = [])"
| "substring_of k (c # s) = (take (length k) (c # s) = k \<or> substring_of k s)"

text \<open>
  \<^verbatim>\<open>k in v\<close> for a string \<open>k\<close>: a key of a dict, an element of a list, a substring of a
  \<^verbatim>\<open>str\<close>; anything else is not a container.
\<close>

fun py_contains :: "json \<Rightarrow> string \<Rightarrow> py_exn + bool" where
  "py_contains (JObj kvs) k = Inr (k \<in> set (map fst kvs))"
| "py_contains (JList xs) k = Inr (JStr k \<in> set xs)"
| "py_contains (JStr s) k = Inr (substring_of k s)"
| "py_contains v k =
     Inl (TypeError (''argument of type '' @ quoted (type_name v) @ '' is not iterable''))"

text \<open>\<^verbatim>\<open>v[k]\<close> for a string \<open>k\<close>: only a dict can be indexed by a string.\<close>

fun py_getitem :: "json \<Rightarrow> string \<Rightarrow> py_exn + json" where
  "py_getitem (JObj kvs) k = (case map_of kvs k of Some v \<Rightarrow> Inr v | None \<Rightarrow> Inl (KeyError k))"
| "py_getitem (JList xs) k =
     Inl (TypeError ''list indices must be integers or slices, not str'')"
| "py_getitem (JStr s) k =
     Inl (TypeError (''string indices must be integers, not '' @ quoted ''str''))"
| "py_getitem v k = Inl (TypeError (quoted (type_name v) @ '' object is not subscriptable''))"

text \<open>
  The module globals of the Flask app: the endpoint read from the environment, whether
  the lazily created credential and SMS client exist yet, and the log.
\<close>

record app_state =
  ACS_ENDPOINT :: "string option"
  credential_cached :: bool
  sms_client_cached :: bool
  app_logged :: "log_record list"

type_synonym 'a app_io = "('a, app_state) run"

text \<open>
  The communications SDK is outside the sources; what its calls do is a parameter:
  what \<^verbatim>\<open>DefaultAzureCredential()\<close> and \<^verbatim>\<open>SmsClient(endpoint, credential)\<close> raise, if
  anything, and what \<^verbatim>\<open>client.send(from_, to, message, enable_delivery_report, tag)\<close>
  raises or returns. The attributes of a send result are taken as JSON values.
\<close>

record sms_send_result =
  message_id :: json
  to :: json
  successful :: json
  http_status_code :: json

record sdk =
  credential_ctor :: "py_exn option"
  sms_client_ctor :: "string \<Rightarrow> py_exn option"
  send :: "json \<Rightarrow> json \<Rightarrow> json \<Rightarrow> json \<Rightarrow> json \<Rightarrow> py_exn + sms_send_result list"

text \<open>A response: the body given to \<^verbatim>\<open>jsonify\<close> and the status code (200 when none is given).\<close>

record response =
  body :: json
  status :: int

definition app_logger :: "level \<Rightarrow> frag list \<Rightarrow> unit app_io" where
  "app_logger lv msg = (\<lambda>s. (Inr (), s\<lparr>app_logged := app_logged s @ [(lv, msg)]\<rparr>))"

definition modify :: "('s \<Rightarrow> 's) \<Rightarrow> (unit, 's) run" where
  "modify g = (\<lambda>s. (Inr (), g s))"

definition raise_opt :: "py_exn option \<Rightarrow> (unit, 's) run" where
  "raise_opt r = (case r of Some e \<Rightarrow> lift (Inl e) | None \<Rightarrow> ret ())"

definition get_credential :: "sdk \<Rightarrow> unit app_io" where
  "get_credential k =
     bind_io (reading credential_cached) (\<lambda>cached.
     if \<not> cached then
       bind_io (raise_opt (credential_ctor k)) (\<lambda>_.
       modify (\<lambda>s. s\<lparr>credential_cached := True\<rparr>))
     else ret ())"

definition get_sms_client :: "sdk \<Rightarrow> unit app_io" where
  "get_sms_client k =
     bind_io (reading sms_client_cached) (\<lambda>cached.
     if \<not> cached then
       bind_io (reading ACS_ENDPOINT) (\<lambda>endpoint.
       case endpoint of
         None \<Rightarrow> lift (Inl (ValueError ''ACS_ENDPOINT environment variable not set''))
       | Some url \<Rightarrow>
           if url = [] then
             lift (Inl (ValueError ''ACS_ENDPOINT environment variable not set''))
           else
             bind_io (get_credential k) (\<lambda>_.
             bind_io (raise_opt (sms_client_ctor k url)) (\<lambda>_.
             modify (\<lambda>s. s\<lparr>sms_client_cached := True\<rparr>))))
     else ret ())"

text \<open>\<^verbatim>\<open>handle_errors\<close>: the decorator around an endpoint.\<close>

definition handle_errors :: "response app_io \<Rightarrow> response app_io" where
  "handle_errors f =
     try_except f (\<lambda>e.
       case e of
         ValueError m \<Rightarrow>
           bind_io (app_logger ERROR [Lit ''Validation error: '', Lit (str_exn e)]) (\<lambda>_.
           ret \<lparr>body = JObj [(''error'', JStr (str_exn e)), (''type'', JStr ''validation_error'')],
                status = 400\<rparr>)
       | HttpResponseError m status_code \<Rightarrow>
           bind_io (app_logger ERROR [Lit ''ACS error: '', Lit (str_exn e)]) (\<lambda>_.
           ret \<lparr>body = JObj [(''error'', JStr (str_exn e)), (''type'', JStr ''acs_error''),
                             (''status_code'', (case status_code of None \<Rightarrow> JNull | Some n \<Rightarrow> JInt n))],
                status = (case status_code of None \<Rightarrow> 500 | Some n \<Rightarrow> if n = 0 then 500 else n)\<rparr>)
       | _ \<Rightarrow>
           bind_io (app_logger ERROR_TRACEBACK [Lit ''Unexpected error: '', Lit (str_exn e)]) (\<lambda>_.
           ret \<lparr>body = JObj [(''error'', JStr ''Internal server error''),
                             (''type'', JStr ''internal_error'')],
                status = 500\<rparr>))"

text \<open>
  The loop over \<^verbatim>\<open>required_fields\<close> of \<^verbatim>\<open>send_sms\<close>: the response of the first missing
  field, if any.
\<close>

fun required_loop :: "json \<Rightarrow> string list \<Rightarrow> py_exn + response option" where
  "required_loop data [] = Inr None"
| "required_loop data (field # rest) =
     (case py_contains data field of
        Inl e \<Rightarrow> Inl e
      | Inr present \<Rightarrow>
          if \<not> present then
            Inr (Some \<lparr>body = JObj [(''error'', JStr (''Missing required field: '' @ field))],
                       status = 400\<rparr>)
          else required_loop data rest)"

text \<open>
  The body of the endpoint \<^verbatim>\<open>/api/v1/sms/send\<close>; \<open>request_json\<close> is what
  \<^verbatim>\<open>request.get_json()\<close> raises or returns.
\<close>

definition send_sms_view :: "sdk \<Rightarrow> py_exn + json \<Rightarrow> response app_io" where
  "send_sms_view k request_json =
     bind_io (lift request_json) (\<lambda>data.
     if \<not> py_truthy data then
       ret \<lparr>body = JObj [(''error'', JStr ''Request body required'')], status = 400\<rparr>
     else
       bind_io (lift (required_loop data [''from'', ''to'', ''message''])) (\<lambda>missing.
       case missing of
         Some r \<Rightarrow> ret r
       | None \<Rightarrow>
           bind_io (get_sms_client k) (\<lambda>_.
           bind_io (lift (py_getitem data ''from'')) (\<lambda>from.
           bind_io (lift (py_getitem data ''to'')) (\<lambda>to.
           bind_io (lift (py_getitem data ''message'')) (\<lambda>message.
           bind_io (lift (py_get_default data ''enable_delivery_report'' (JBool True))) (\<lambda>report.
           bind_io (lift (py_get data ''tag'')) (\<lambda>tag.
           bind_io (lift (send k from to message report tag)) (\<lambda>response.
           case response of
             [] \<Rightarrow> lift (Inl (IndexError ''list index out of range''))
           | result # _ \<Rightarrow>
               bind_io (lift (py_getitem data ''to'')) (\<lambda>to'.
               bind_io (app_logger INFO [Lit ''SMS sent: '', Val (message_id result),
                                         Lit '' to '', Val to']) (\<lambda>_.
               ret \<lparr>body = JObj [(''message_id'', message_id result),
                                 (''to'', sms_send_result.to result),
                                 (''successful'', successful result),
                                 (''http_status'', http_status_code result)],
                    status = 200\<rparr>)))))))))))"

definition send_sms :: "sdk \<Rightarrow> py_exn + json \<Rightarrow> response app_io" where
  "send_sms k request_json = handle_errors (send_sms_view k request_json)"

section \<open>Example inputs\<close>

text \<open>A world with the store configured and reachable, and one without a store.\<close>

definition world_1 :: world where
  "world_1 = \<lparr>COSMOS_ENDPOINT = Some ''https://acs-cosmos.documents.azure.com:443/'',
     utcnow = ''2024-01-01T00:00:05.000000'', connect_fault = None,
     request_fault = (\<lambda>call. None),
     clients_constructed = 0, store = [], logged = []\<rparr>"

definition world_unconfigured :: world where
  "world_unconfigured = \<lparr>COSMOS_ENDPOINT = None,
     utcnow = ''2024-01-01T00:00:05.000000'', connect_fault = None,
     request_fault = (\<lambda>call. None),
     clients_constructed = 0, store = [], logged = []\<rparr>"

definition sms_event_1 :: event where
  "sms_event_1 = \<lparr>event_id = JStr ''evt-1'',
     event_type = JStr ''Microsoft.Communication.SMSReceived'',
     event_data = JObj
       [(''messageId'', JStr ''m1''),
        (''from'', JStr ''+1''),
        (''to'', JStr ''+2''),
        (''message'', JStr ''hi''),
        (''receivedTimestamp'', JStr ''2024-01-01T00:00:00Z'')]\<rparr>"

definition chat_data_1 :: json where
  "chat_data_1 = JObj
       [(''threadId'', JStr ''19:thread-a''),
        (''senderId'', JStr ''8:acs:user-1''),
        (''messageBody'', JStr ''hello''),
        (''transactionId'', JStr ''tx-1'')]"

definition chat_event_1 :: event where
  "chat_event_1 = \<lparr>event_id = JStr ''evt-9'',
     event_type = JStr ''Microsoft.Communication.ChatMessageReceived'',
     event_data = chat_data_1\<rparr>"

definition chat_event_no_thread :: event where
  "chat_event_no_thread = \<lparr>event_id = JStr ''evt-2'',
     event_type = JStr ''Microsoft.Communication.ChatMessageReceived'',
     event_data = JObj
       [(''senderId'', JStr ''8:acs:user-1''),
        (''messageBody'', JStr ''hello'')]\<rparr>"

definition recording_event_1 :: event where
  "recording_event_1 = \<lparr>event_id = JStr ''evt-3'',
     event_type = JStr ''Microsoft.Communication.RecordingFileStatusUpdated'',
     event_data = JObj
       [(''serverCallId'', JStr ''call-9''),
        (''recordingStorageInfo'', JObj [(''recordingChunks'', JList [])]),
        (''status'', JStr ''failed'')]\<rparr>"

definition recording_event_no_info :: event where
  "recording_event_no_info = \<lparr>event_id = JStr ''evt-4'',
     event_type = JStr ''Microsoft.Communication.RecordingFileStatusUpdated'',
     event_data = JObj [(''serverCallId'', JStr ''call-9'')]\<rparr>"

definition unknown_event_1 :: event where
  "unknown_event_1 = \<lparr>event_id = JStr ''evt-5'',
     event_type = JStr ''Microsoft.Communication.ChatMessageEdited'',
     event_data = JObj [(''threadId'', JStr ''19:thread-a'')]\<rparr>"


definition world_unreachable :: world where
  "world_unreachable =
     world_1\<lparr>connect_fault := Some (HttpResponseError ''Service Unavailable'' (Some 503))\<rparr>"

definition world_request_fails :: world where
  "world_request_fails =
     world_1\<lparr>request_fault := (\<lambda>call. Some (OtherException ''connection reset''))\<rparr>"



definition record_first :: json where
  "record_first = JObj [(''id'', JStr ''evt-1''), (''callId'', JStr ''m1''), (''type'', JStr ''first'')]"

definition record_second :: json where
  "record_second = JObj [(''id'', JStr ''evt-1''), (''callId'', JStr ''m1''), (''type'', JStr ''second'')]"

definition sdk_ok :: sdk where
  "sdk_ok = \<lparr>credential_ctor = None, sms_client_ctor = (\<lambda>url. None),
     send = (\<lambda>from to message report tag.
        Inr [\<lparr>message_id = JStr ''msg-1'', to = to, successful = JBool True,
              http_status_code = JInt 202\<rparr>])\<rparr>"

definition sdk_throttled :: sdk where
  "sdk_throttled = \<lparr>credential_ctor = None, sms_client_ctor = (\<lambda>url. None),
     send = (\<lambda>from to message report tag.
        Inl (HttpResponseError ''Too many requests'' (Some 429)))\<rparr>"

definition app_1 :: app_state where
  "app_1 = \<lparr>ACS_ENDPOINT = Some ''https://acs.example.com'', credential_cached = False,
     sms_client_cached = False, app_logged = []\<rparr>"

definition app_unconfigured :: app_state where
  "app_unconfigured = \<lparr>ACS_ENDPOINT = None, credential_cached = False,
     sms_client_cached = False, app_logged = []\<rparr>"

definition sms_request_1 :: json where
  "sms_request_1 = JObj [(''from'', JStr ''+1''), (''to'', JStr ''+2''), (''message'', JStr ''hi'')]"

definition sms_request_no_to :: json where
  "sms_request_no_to = JObj [(''from'', JStr ''+1''), (''message'', JStr ''hi'')]"

definition sms_request_list :: json where
  "sms_request_list = JList [JStr ''from'', JStr ''to'', JStr ''message'']"

section \<open>Observations\<close>

text \<open>The \<^verbatim>\<open>cosmos_db\<close> entry of the snapshot a health check has produced.\<close>

definition snapshot_status :: "py_exn + json \<Rightarrow> json option" where
  "snapshot_status r = (case r of Inl _ \<Rightarrow> None | Inr snap \<Rightarrow> item_field snap ''cosmos_db'')"

text \<open>A field of the body of the response of an endpoint, and its status code.\<close>

definition outcome_field :: "py_exn + response \<Rightarrow> string \<Rightarrow> json option" where
  "outcome_field r k = (case r of Inl _ \<Rightarrow> None | Inr resp \<Rightarrow> item_field (body resp) k)"

definition outcome_status :: "py_exn + response \<Rightarrow> int option" where
  "outcome_status r = (case r of Inl _ \<Rightarrow> None | Inr resp \<Rightarrow> Some (status resp))"

section \<open>Reasoning about invocations\<close>

lemma py_get_obj: "py_get (JObj kvs) k = Inr (dict_get kvs k JNull)"
  by (simp add: py_get_def py_get_default_def)

lemma py_get_default_obj: "py_get_default (JObj kvs) k d = Inr (dict_get kvs k d)"
  by (simp add: py_get_default_def)

lemma dict_get_none: "map_of kvs k = None \<Longrightarrow> dict_get kvs k d = d"
  by (simp add: dict_get_def)

lemma dict_get_some: "map_of kvs k = Some v \<Longrightarrow> dict_get kvs k d = v"
  by (simp add: dict_get_def)

lemma py_get_default_Inr:
  "py_get_default d k x = Inr v \<longleftrightarrow> (\<exists>kvs. d = JObj kvs \<and> v = dict_get kvs k x)"
  by (cases d) (auto simp: py_get_default_def)

lemma py_get_Inr: "py_get d k = Inr v \<longleftrightarrow> (\<exists>kvs. d = JObj kvs \<and> v = dict_get kvs k JNull)"
  by (simp add: py_get_def py_get_default_Inr)

lemma configured_upd:
  "configured (w\<lparr>logged := l\<rparr>) = configured w"
  "configured (w\<lparr>clients_constructed := n\<rparr>) = configured w"
  "configured (w\<lparr>store := s\<rparr>) = configured w"
  by (simp_all add: configured_def)

lemma bind_io_Inr:
  "bind_io m f w = (Inr y, w'') \<longleftrightarrow> (\<exists>x w'. m w = (Inr x, w') \<and> f x w' = (Inr y, w''))"
  by (cases "m w"; cases "fst (m w)") (auto simp: bind_io_def)

lemma lift_eq: "lift r w = (Inr x, w') \<longleftrightarrow> r = Inr x \<and> w' = w"
  by (auto simp: lift_def)

lemma ret_eq: "ret x w = (Inr y, w') \<longleftrightarrow> y = x \<and> w' = w"
  by (auto simp: ret_def)

lemma reading_eq: "reading g w = (Inr x, w') \<longleftrightarrow> x = g w \<and> w' = w"
  by (auto simp: reading_def)

lemma logger_eq:
  "logger lv msg w = (Inr x, w') \<longleftrightarrow> w' = w\<lparr>logged := logged w @ [(lv, msg)]\<rparr>"
  by (auto simp: logger_def)

text \<open>A handler that logs and raises again lets only a success of the body through.\<close>

lemma try_reraise_Inr:
  "try_except m (\<lambda>e. bind_io (h e) (\<lambda>_. lift (Inl e))) w = (Inr x, w') \<longleftrightarrow> m w = (Inr x, w')"
  by (cases "m w"; cases "fst (m w)"; cases "h (projl (fst (m w))) (snd (m w))")
     (auto simp: try_except_def bind_io_def lift_def split: sum.splits)

lemma get_cosmos_client_eq:
  "get_cosmos_client w = (Inr x, w') \<longleftrightarrow>
     connect_fault w = None \<and> w' = w\<lparr>clients_constructed := Suc (clients_constructed w)\<rparr>"
  by (cases "connect_fault w") (auto simp: get_cosmos_client_def Let_def)

lemma upsert_item_eq:
  "upsert_item c item w = (Inr x, w') \<longleftrightarrow>
     request_fault w (UpsertItem c item) = None
       \<and> w' = w\<lparr>store := store_upsert c item (store w)\<rparr>"
  by (cases "request_fault w (UpsertItem c item)") (auto simp: upsert_item_def)

lemmas io_eqs = bind_io_Inr lift_eq ret_eq reading_eq logger_eq try_reraise_Inr
  get_cosmos_client_eq upsert_item_eq

lemmas io_defs = ret_def lift_def bind_io_def reading_def try_except_def logger_def

lemma item_field_obj: "item_field (JObj kvs) k = map_of kvs k"
  by (simp add: item_field_def)

lemma sms_written:
  assumes "process_sms_received ev w = (Inr (), w')" "configured w"
  shows "\<exists>item pk. store w' = store_upsert ''call-logs'' item (store w)
       \<and> item_field item ''id'' = Some (event_id ev)
       \<and> py_get (get_json ev) ''messageId'' = Inr pk
       \<and> item_field item ''callId'' = Some pk"
  using assms
  apply (clarsimp simp: process_sms_received_def sms_try_def io_eqs Let_def configured_upd py_get_Inr)
  apply (rule exI, rule conjI, rule refl)
  apply (simp add: item_field_obj)
  done

lemma chat_written:
  assumes "process_chat_message eid data w = (Inr (), w')" "configured w"
  shows "\<exists>item pk. store w' = store_upsert ''chat-history'' item (store w)
       \<and> item_field item ''id'' = Some eid
       \<and> py_get data ''threadId'' = Inr pk
       \<and> item_field item ''threadId'' = Some pk"
  using assms
  apply (clarsimp simp: process_chat_message_def io_eqs Let_def configured_upd py_get_Inr)
  apply (rule exI, rule conjI, rule refl)
  apply (simp add: item_field_obj)
  done

text \<open>The dispatch of \<^verbatim>\<open>process_chat_event\<close> passes the id and the payload of the event on.\<close>

lemma chat_event_written:
  assumes "process_chat_event ev w = (Inr (), w')"
      and "event_type ev = JStr ''Microsoft.Communication.ChatMessageReceived''"
      and "configured w"
  shows "\<exists>item pk. store w' = store_upsert ''chat-history'' item (store w)
       \<and> item_field item ''id'' = Some (event_id ev)
       \<and> py_get (get_json ev) ''threadId'' = Inr pk
       \<and> item_field item ''threadId'' = Some pk"
proof -
  let ?w1 = "w\<lparr>logged := logged w @
      [(INFO, [Lit ''Chat Event: '', Val (event_type ev), Lit '', ID: '', Val (event_id ev)])]\<rparr>"
  from assms(1,2) have "process_chat_message (event_id ev) (get_json ev) ?w1 = (Inr (), w')"
    by (simp add: process_chat_event_def chat_try_def io_eqs Let_def)
  from chat_written[OF this] assms(3) show ?thesis
    by (simp add: configured_upd)
qed

text \<open>The loop over the chunks only logs.\<close>

lemma chunks_loop_frame: "chunks_loop cs w = (r, w') \<Longrightarrow> \<exists>l. w' = w\<lparr>logged := l\<rparr>"
proof (induction cs arbitrary: w)
  case Nil
  then show ?case by (auto simp: ret_def intro: exI[of _ "logged w"])
next
  case (Cons c cs)
  show ?case
  proof (cases "py_get c ''contentLocation''")
    case (Inl e)
    with Cons.prems show ?thesis
      by (auto simp: bind_io_def lift_def intro: exI[of _ "logged w"])
  next
    case (Inr a)
    then obtain kvs where c: "c = JObj kvs" by (auto simp: py_get_Inr)
    from Cons.prems c
    have "chunks_loop cs (w\<lparr>logged := logged w @ [(INFO, [Lit ''Recording available at: '',
            Val (dict_get kvs ''contentLocation'' JNull)])]\<rparr>) = (r, w')"
      by (simp add: bind_io_def lift_def py_get_obj logger_def)
    from Cons.IH[OF this] show ?thesis by auto
  qed
qed

lemma recording_written:
  assumes "process_recording_event ev w = (Inr (), w')" "configured w"
  shows "\<exists>item pk. store w' = store_upsert ''call-logs'' item (store w)
       \<and> item_field item ''id'' = Some (event_id ev)
       \<and> py_get (get_json ev) ''serverCallId'' = Inr pk
       \<and> item_field item ''callId'' = Some pk
       \<and> item_field item ''status'' = Some (JStr ''available'')"
  using assms
  apply (clarsimp simp: process_recording_event_def recording_try_def io_eqs Let_def
           configured_upd py_get_Inr py_get_default_Inr)
  apply (drule chunks_loop_frame)
  apply (clarsimp simp: configured_upd io_eqs py_get_Inr)
  apply (rule exI, rule conjI, rule refl)
  apply (simp add: item_field_obj)
  done





























lemmas ex_defs = world_1_def world_unconfigured_def sms_event_1_def chat_data_1_def
  chat_event_1_def chat_event_no_thread_def recording_event_1_def recording_event_no_info_def unknown_event_1_def

lemmas run_defs = io_defs get_json_def py_get_def py_get_default_def dict_get_def configured_def
  get_cosmos_client_def upsert_item_def list_containers_def Let_def

lemma configured_world_1: "configured world_1"
  by (simp add: configured_def world_1_def)

lemma sms_run_1:
  "process_sms_received sms_event_1 world_1 =
     (Inr (), snd (process_sms_received sms_event_1 world_1))"
  by (simp add: process_sms_received_def sms_try_def ex_defs run_defs)

lemma chat_run_1:
  "process_chat_event chat_event_1 world_1 =
     (Inr (), snd (process_chat_event chat_event_1 world_1))"
  by (simp add: process_chat_event_def chat_try_def process_chat_message_def ex_defs run_defs)

lemma chat_event_1_type:
  "event_type chat_event_1 = JStr ''Microsoft.Communication.ChatMessageReceived''"
  by (simp add: chat_event_1_def)

lemma recording_run_1:
  "process_recording_event recording_event_1 world_1 =
     (Inr (), snd (process_recording_event recording_event_1 world_1))"
  by (simp add: process_recording_event_def recording_try_def ex_defs run_defs)

section \<open>Records written by the persisting handlers\<close>

text \<open>
  C1. With the store configured, whenever one of the functions completes on an event of
  a persisted kind (\<^verbatim>\<open>process_sms_received\<close> on any event, \<^verbatim>\<open>process_chat_event\<close> on an event
  of type \<^verbatim>\<open>ChatMessageReceived\<close>, \<^verbatim>\<open>process_recording_event\<close> on any event), the store has
  been updated by one upsert of a record whose \<^verbatim>\<open>id\<close> is the id of the event and whose
  partition-key field holds the value of the kind's payload field: \<^verbatim>\<open>messageId\<close> for SMS,
  \<^verbatim>\<open>threadId\<close> for chat, \<^verbatim>\<open>serverCallId\<close> for a recording. The partition key is a lookup in
  the payload; the event id does not enter it.
\<close>

theorem persisted_record_keys:
  assumes "configured w"
  shows "(process_sms_received ev w = (Inr (), w') \<longrightarrow>
            (\<exists>item pk. store w' = store_upsert ''call-logs'' item (store w)
               \<and> item_field item ''id'' = Some (event_id ev)
               \<and> py_get (get_json ev) ''messageId'' = Inr pk
               \<and> item_field item (partition_key_path ''call-logs'') = Some pk))
       \<and> (process_chat_event ev w = (Inr (), w')
            \<and> event_type ev = JStr ''Microsoft.Communication.ChatMessageReceived'' \<longrightarrow>
            (\<exists>item pk. store w' = store_upsert ''chat-history'' item (store w)
               \<and> item_field item ''id'' = Some (event_id ev)
               \<and> py_get (get_json ev) ''threadId'' = Inr pk
               \<and> item_field item (partition_key_path ''chat-history'') = Some pk))
       \<and> (process_recording_event ev w = (Inr (), w') \<longrightarrow>
            (\<exists>item pk. store w' = store_upsert ''call-logs'' item (store w)
               \<and> item_field item ''id'' = Some (event_id ev)
               \<and> py_get (get_json ev) ''serverCallId'' = Inr pk
               \<and> item_field item (partition_key_path ''call-logs'') = Some pk))"
proof (intro conjI impI)
  assume "process_sms_received ev w = (Inr (), w')"
  from sms_written[OF this assms]
  show "\<exists>item pk. store w' = store_upsert ''call-logs'' item (store w)
          \<and> item_field item ''id'' = Some (event_id ev)
          \<and> py_get (get_json ev) ''messageId'' = Inr pk
          \<and> item_field item (partition_key_path ''call-logs'') = Some pk"
    by (simp add: partition_key_path_def)
next
  assume "process_chat_event ev w = (Inr (), w')
            \<and> event_type ev = JStr ''Microsoft.Communication.ChatMessageReceived''"
  then have "process_chat_event ev w = (Inr (), w')"
    and "event_type ev = JStr ''Microsoft.Communication.ChatMessageReceived''" by simp_all
  from chat_event_written[OF this assms]
  show "\<exists>item pk. store w' = store_upsert ''chat-history'' item (store w)
          \<and> item_field item ''id'' = Some (event_id ev)
          \<and> py_get (get_json ev) ''threadId'' = Inr pk
          \<and> item_field item (partition_key_path ''chat-history'') = Some pk"
    by (simp add: partition_key_path_def)
next
  assume "process_recording_event ev w = (Inr (), w')"
  from recording_written[OF this assms]
  show "\<exists>item pk. store w' = store_upsert ''call-logs'' item (store w)
          \<and> item_field item ''id'' = Some (event_id ev)
          \<and> py_get (get_json ev) ''serverCallId'' = Inr pk
          \<and> item_field item (partition_key_path ''call-logs'') = Some pk"
    by (auto simp add: partition_key_path_def)
qed

theorem persisted_record_keys_witness:
  "(\<exists>item pk. store (snd (process_sms_received sms_event_1 world_1))
                 = store_upsert ''call-logs'' item (store world_1)
       \<and> item_field item ''id'' = Some (event_id sms_event_1)
       \<and> py_get (get_json sms_event_1) ''messageId'' = Inr pk
       \<and> item_field item (partition_key_path ''call-logs'') = Some pk)
   \<and> (\<exists>item pk. store (snd (process_chat_event chat_event_1 world_1))
                 = store_upsert ''chat-history'' item (store world_1)
       \<and> item_field item ''id'' = Some (event_id chat_event_1)
       \<and> py_get (get_json chat_event_1) ''threadId'' = Inr pk
       \<and> item_field item (partition_key_path ''chat-history'') = Some pk)
   \<and> (\<exists>item pk. store (snd (process_recording_event recording_event_1 world_1))
                 = store_upsert ''call-logs'' item (store world_1)
       \<and> item_field item ''id'' = Some (event_id recording_event_1)
       \<and> py_get (get_json recording_event_1) ''serverCallId'' = Inr pk
       \<and> item_field item (partition_key_path ''call-logs'') = Some pk)"
  using persisted_record_keys[where w = world_1 and ev = sms_event_1
            and w' = "snd (process_sms_received sms_event_1 world_1)",
          OF configured_world_1]
        persisted_record_keys[where w = world_1 and ev = chat_event_1
            and w' = "snd (process_chat_event chat_event_1 world_1)",
          OF configured_world_1]
        persisted_record_keys[where w = world_1 and ev = recording_event_1
            and w' = "snd (process_recording_event recording_event_1 world_1)",
          OF configured_world_1]
        sms_run_1 chat_run_1 recording_run_1 chat_event_1_type
  by blast

text \<open>
  C10. With the store configured, the record a completed recording handler has written
  carries the status \<^verbatim>\<open>available\<close>, whatever the payload of the event says.
\<close>

theorem recording_status_available:
  assumes "configured w" "process_recording_event ev w = (Inr (), w')"
  shows "\<exists>item. store w' = store_upsert ''call-logs'' item (store w)
       \<and> item_field item ''status'' = Some (JStr ''available'')"
  using recording_written[OF assms(2,1)] by auto

theorem recording_status_available_witness:
  "\<exists>item. store (snd (process_recording_event recording_event_1 world_1))
             = store_upsert ''call-logs'' item (store world_1)
       \<and> item_field item ''status'' = Some (JStr ''available'')"
  by (rule recording_status_available[OF configured_world_1 recording_run_1])

lemmas run2_defs = io_defs get_json_def py_get_def py_get_default_def dict_get_def
  get_cosmos_client_def upsert_item_def list_containers_def Let_def configured_upd

lemmas app_run_defs = io_defs app_logger_def modify_def raise_opt_def get_credential_def
  get_sms_client_def handle_errors_def send_sms_view_def send_sms_def
  py_get_def py_get_default_def dict_get_def Let_def

lemmas app_ex_defs = sdk_ok_def sdk_throttled_def app_1_def app_unconfigured_def
  sms_request_1_def sms_request_no_to_def sms_request_list_def

section \<open>The upsert store\<close>

text \<open>
  C2. For every container, every two records with the same id and the same partition
  key, and every store that accepts the two upserts: after upserting the first and then
  the second, the slot holds exactly one record, the second (last write wins, nothing is
  duplicated). Taking the two records equal gives idempotence.
\<close>

theorem upsert_last_write_wins:
  assumes "request_fault w (UpsertItem c r1) = None" "request_fault w (UpsertItem c r2) = None"
      and "slot c r1 = slot c r2"
  shows "slot_items (slot c r2) (store (snd (upsert_item c r2 (snd (upsert_item c r1 w))))) = [r2]"
  using assms by (simp add: upsert_item_def store_upsert_def slot_items_def)

theorem upsert_last_write_wins_witness:
  "slot_items (slot ''call-logs'' record_second)
     (store (snd (upsert_item ''call-logs'' record_second
        (snd (upsert_item ''call-logs'' record_first world_1))))) = [record_second]"
  by (rule upsert_last_write_wins)
     (simp_all add: world_1_def record_first_def record_second_def slot_def item_field_def
        partition_key_path_def)

section \<open>The SMS scenario\<close>

text \<open>
  C3, as stated, fails: for the envelope \<open>sms_event_1\<close> the handler stores a record
  whose partition key is the field \<^verbatim>\<open>callId\<close> (there is no field \<^verbatim>\<open>partitionKey\<close>) and
  whose \<^verbatim>\<open>from\<close>, \<^verbatim>\<open>to\<close> and \<^verbatim>\<open>message\<close> are not at the top level but inside the nested
  \<^verbatim>\<open>data\<close> record.
\<close>

theorem sms_scenario_counterexample:
  "store (snd (process_sms_received sms_event_1 world_1)) =
     [(''call-logs'', JObj
        [(''id'', JStr ''evt-1''),
         (''callId'', JStr ''m1''),
         (''type'', JStr ''sms''),
         (''direction'', JStr ''inbound''),
         (''data'', JObj
            [(''id'', JStr ''evt-1''),
             (''type'', JStr ''sms_received''),
             (''messageId'', JStr ''m1''),
             (''from'', JStr ''+1''),
             (''to'', JStr ''+2''),
             (''message'', JStr ''hi''),
             (''receivedAt'', JStr ''2024-01-01T00:00:00Z''),
             (''processedAt'', JStr ''2024-01-01T00:00:05.000000'')])])]
   \<and> item_field (snd (hd (store (snd (process_sms_received sms_event_1 world_1)))))
        ''partitionKey'' = None
   \<and> item_field (snd (hd (store (snd (process_sms_received sms_event_1 world_1)))))
        ''from'' = None
   \<and> item_field (snd (hd (store (snd (process_sms_received sms_event_1 world_1)))))
        ''to'' = None
   \<and> item_field (snd (hd (store (snd (process_sms_received sms_event_1 world_1)))))
        ''message'' = None"
  by (simp add: process_sms_received_def sms_try_def ex_defs run_defs store_upsert_def
        item_field_def)

text \<open>
  C3, amended. For the envelope \<open>sms_event_1\<close>, with the store configured and
  reachable, the handler completes and upserts into \<^verbatim>\<open>call-logs\<close> exactly the record
  \<^verbatim>\<open>{id: "evt-1", callId: "m1", type: "sms", direction: "inbound", data: {...}}\<close>, where
  \<^verbatim>\<open>data\<close> holds id, type \<^verbatim>\<open>sms_received\<close>, messageId, from, to, message, receivedAt and
  processedAt (the time of processing). The store is reachable when the client can be
  constructed and the upsert of this record raises nothing.
\<close>

theorem sms_scenario_stored:
  assumes "configured w" "connect_fault w = None"
      and "request_fault w (UpsertItem ''call-logs'' (JObj
             [(''id'', JStr ''evt-1''),
              (''callId'', JStr ''m1''),
              (''type'', JStr ''sms''),
              (''direction'', JStr ''inbound''),
              (''data'', JObj
                 [(''id'', JStr ''evt-1''),
                  (''type'', JStr ''sms_received''),
                  (''messageId'', JStr ''m1''),
                  (''from'', JStr ''+1''),
                  (''to'', JStr ''+2''),
                  (''message'', JStr ''hi''),
                  (''receivedAt'', JStr ''2024-01-01T00:00:00Z''),
                  (''processedAt'', JStr (utcnow w))])])) = None"
  shows "fst (process_sms_received sms_event_1 w) = Inr ()
       \<and> store (snd (process_sms_received sms_event_1 w)) =
           store_upsert ''call-logs'' (JObj
             [(''id'', JStr ''evt-1''),
              (''callId'', JStr ''m1''),
              (''type'', JStr ''sms''),
              (''direction'', JStr ''inbound''),
              (''data'', JObj
                 [(''id'', JStr ''evt-1''),
                  (''type'', JStr ''sms_received''),
                  (''messageId'', JStr ''m1''),
                  (''from'', JStr ''+1''),
                  (''to'', JStr ''+2''),
                  (''message'', JStr ''hi''),
                  (''receivedAt'', JStr ''2024-01-01T00:00:00Z''),
                  (''processedAt'', JStr (utcnow w))])]) (store w)"
  using assms
  by (simp add: process_sms_received_def sms_try_def sms_event_1_def run2_defs)

theorem sms_scenario_stored_witness:
  "fst (process_sms_received sms_event_1 world_1) = Inr ()
   \<and> store (snd (process_sms_received sms_event_1 world_1)) =
       store_upsert ''call-logs'' (JObj
         [(''id'', JStr ''evt-1''),
          (''callId'', JStr ''m1''),
          (''type'', JStr ''sms''),
          (''direction'', JStr ''inbound''),
          (''data'', JObj
             [(''id'', JStr ''evt-1''),
              (''type'', JStr ''sms_received''),
              (''messageId'', JStr ''m1''),
              (''from'', JStr ''+1''),
              (''to'', JStr ''+2''),
              (''message'', JStr ''hi''),
              (''receivedAt'', JStr ''2024-01-01T00:00:00Z''),
              (''processedAt'', JStr (utcnow world_1))])]) (store world_1)"
  by (rule sms_scenario_stored) (simp_all add: configured_def world_1_def)

section \<open>Absent payload fields\<close>

text \<open>
  C4 fails on the code: a chat-message event whose payload has no \<^verbatim>\<open>threadId\<close> makes
  \<^verbatim>\<open>process_chat_message\<close> raise \<^verbatim>\<open>TypeError\<close> at its log line, where \<^verbatim>\<open>thread_id[:20]\<close>
  slices the \<^verbatim>\<open>None\<close> that \<^verbatim>\<open>data.get("threadId")\<close> returned; nothing is stored.
\<close>

theorem chat_message_without_thread_raises:
  "fst (process_chat_event chat_event_no_thread world_1) =
     Inl (TypeError (quoted ''NoneType'' @ '' object is not subscriptable''))
   \<and> store (snd (process_chat_event chat_event_no_thread world_1)) = []"
  by (simp add: process_chat_event_def chat_try_def process_chat_message_def ex_defs run_defs)

section \<open>Unknown event types\<close>

text \<open>
  C5, as stated, fails: \<^verbatim>\<open>process_sms_received\<close> never reads the type of the event. Given
  an event of a type no function knows, it completes, upserts a record into \<^verbatim>\<open>call-logs\<close>
  and logs three info lines and no warning.
\<close>

theorem unknown_type_persisted_counterexample:
  "fst (process_sms_received unknown_event_1 world_1) = Inr ()
   \<and> store (snd (process_sms_received unknown_event_1 world_1)) =
       [(''call-logs'', JObj
          [(''id'', JStr ''evt-5''),
           (''callId'', JNull),
           (''type'', JStr ''sms''),
           (''direction'', JStr ''inbound''),
           (''data'', JObj
              [(''id'', JStr ''evt-5''),
               (''type'', JStr ''sms_received''),
               (''messageId'', JNull),
               (''from'', JNull),
               (''to'', JNull),
               (''message'', JNull),
               (''receivedAt'', JNull),
               (''processedAt'', JStr ''2024-01-01T00:00:05.000000'')])])]
   \<and> logged (snd (process_sms_received unknown_event_1 world_1)) =
       [(INFO, [Lit ''SMS Received Event: '', Val (JStr ''evt-5'')]),
        (INFO, [Lit ''SMS from '', Val JNull, Lit '' to '', Val JNull]),
        (INFO, [Lit ''SMS logged to Cosmos DB: '', Val (JStr ''evt-5'')])]"
  by (simp add: process_sms_received_def sms_try_def ex_defs run_defs store_upsert_def)

text \<open>
  C5, amended. For every event delivered to \<^verbatim>\<open>process_chat_event\<close>, the one function that
  dispatches on the type of the event, whose type is none of its three chat event types,
  the function returns without an error and changes nothing but the log, to which it adds
  its info line and the warning \<^verbatim>\<open>Unknown chat event type\<close>: no client is constructed and
  the store is not written. \<^verbatim>\<open>process_sms_received\<close> and \<^verbatim>\<open>process_recording_event\<close> do not
  depend on the type of the event: they treat an event of any type as one of their own.
\<close>

theorem unknown_chat_event_dropped:
  "(event_type ev \<notin> {JStr ''Microsoft.Communication.ChatMessageReceived'',
                        JStr ''Microsoft.Communication.ChatThreadCreated'',
                        JStr ''Microsoft.Communication.ChatParticipantAdded''} \<longrightarrow>
      process_chat_event ev w =
        (Inr (), w\<lparr>logged := logged w @
           [(INFO, [Lit ''Chat Event: '', Val (event_type ev), Lit '', ID: '',
                    Val (event_id ev)]),
            (WARNING, [Lit ''Unknown chat event type: '', Val (event_type ev)])]\<rparr>))
   \<and> process_sms_received (ev\<lparr>event_type := t\<rparr>) w = process_sms_received ev w
   \<and> process_recording_event (ev\<lparr>event_type := t\<rparr>) w = process_recording_event ev w"
proof (intro conjI impI)
  assume "event_type ev \<notin> {JStr ''Microsoft.Communication.ChatMessageReceived'',
                        JStr ''Microsoft.Communication.ChatThreadCreated'',
                        JStr ''Microsoft.Communication.ChatParticipantAdded''}"
  then show "process_chat_event ev w =
        (Inr (), w\<lparr>logged := logged w @
           [(INFO, [Lit ''Chat Event: '', Val (event_type ev), Lit '', ID: '',
                    Val (event_id ev)]),
            (WARNING, [Lit ''Unknown chat event type: '', Val (event_type ev)])]\<rparr>)"
    by (simp add: process_chat_event_def chat_try_def io_defs Let_def)
next
  show "process_sms_received (ev\<lparr>event_type := t\<rparr>) w = process_sms_received ev w"
    by (simp add: process_sms_received_def sms_try_def get_json_def cong: if_cong)
next
  show "process_recording_event (ev\<lparr>event_type := t\<rparr>) w = process_recording_event ev w"
    by (simp add: process_recording_event_def recording_try_def get_json_def cong: if_cong)
qed

theorem unknown_chat_event_dropped_witness:
  "process_chat_event unknown_event_1 world_1 =
     (Inr (), world_1\<lparr>logged := logged world_1 @
        [(INFO, [Lit ''Chat Event: '', Val (event_type unknown_event_1), Lit '', ID: '',
                 Val (event_id unknown_event_1)]),
         (WARNING, [Lit ''Unknown chat event type: '', Val (event_type unknown_event_1)])]\<rparr>)
   \<and> process_sms_received
        (unknown_event_1\<lparr>event_type := JStr ''Microsoft.Communication.SMSReceived''\<rparr>) world_1
       = process_sms_received unknown_event_1 world_1"
  using unknown_chat_event_dropped[of unknown_event_1 world_1
          "JStr ''Microsoft.Communication.SMSReceived''"]
  by (simp add: unknown_event_1_def)

section \<open>Recordings without chunks\<close>

text \<open>
  C6. With the store configured, for every recording event whose payload is a mapping
  that either has no \<^verbatim>\<open>recordingStorageInfo\<close> or has one whose \<^verbatim>\<open>recordingChunks\<close> is the
  empty list: the handler reaches the store with the record
  \<^verbatim>\<open>{id, callId, type: "recording", status: "available", chunks: [], processedAt}\<close>, whose
  \<^verbatim>\<open>chunks\<close> field is present and is the empty list; whenever the client can be constructed
  and the upsert of this record raises nothing, the handler completes and the store has
  been updated by the upsert of exactly this record.
\<close>

theorem recording_empty_chunks_written:
  assumes "configured w" "connect_fault w = None"
      and "get_json ev = JObj kvs"
      and "map_of kvs ''recordingStorageInfo'' = None
           \<or> (\<exists>info. map_of kvs ''recordingStorageInfo'' = Some (JObj info)
                 \<and> map_of info ''recordingChunks'' = Some (JList []))"
      and "request_fault w (UpsertItem ''call-logs'' (JObj
             [(''id'', event_id ev),
              (''callId'', dict_get kvs ''serverCallId'' JNull),
              (''type'', JStr ''recording''),
              (''status'', JStr ''available''),
              (''chunks'', JList []),
              (''processedAt'', JStr (utcnow w))])) = None"
  shows "fst (process_recording_event ev w) = Inr ()
       \<and> store (snd (process_recording_event ev w)) =
           store_upsert ''call-logs'' (JObj
             [(''id'', event_id ev),
              (''callId'', dict_get kvs ''serverCallId'' JNull),
              (''type'', JStr ''recording''),
              (''status'', JStr ''available''),
              (''chunks'', JList []),
              (''processedAt'', JStr (utcnow w))]) (store w)"
  using assms(4)
proof
  assume "map_of kvs ''recordingStorageInfo'' = None"
  with assms(1-3,5) show ?thesis
    by (simp add: process_recording_event_def recording_try_def io_defs get_json_def
          py_get_obj py_get_default_obj get_cosmos_client_def upsert_item_def Let_def
          configured_upd dict_get_none dict_get_some)
next
  assume "\<exists>info. map_of kvs ''recordingStorageInfo'' = Some (JObj info)
                 \<and> map_of info ''recordingChunks'' = Some (JList [])"
  then obtain info where "map_of kvs ''recordingStorageInfo'' = Some (JObj info)"
     "map_of info ''recordingChunks'' = Some (JList [])" by blast
  with assms(1-3,5) show ?thesis
    by (simp add: process_recording_event_def recording_try_def io_defs get_json_def
          py_get_obj py_get_default_obj get_cosmos_client_def upsert_item_def Let_def
          configured_upd dict_get_none dict_get_some)
qed

theorem recording_empty_chunks_written_witness:
  "(fst (process_recording_event recording_event_1 world_1) = Inr ()
     \<and> store (snd (process_recording_event recording_event_1 world_1)) =
         store_upsert ''call-logs'' (JObj
           [(''id'', JStr ''evt-3''),
            (''callId'', JStr ''call-9''),
            (''type'', JStr ''recording''),
            (''status'', JStr ''available''),
            (''chunks'', JList []),
            (''processedAt'', JStr ''2024-01-01T00:00:05.000000'')]) [])
   \<and> (fst (process_recording_event recording_event_no_info world_1) = Inr ()
     \<and> store (snd (process_recording_event recording_event_no_info world_1)) =
         store_upsert ''call-logs'' (JObj
           [(''id'', JStr ''evt-4''),
            (''callId'', JStr ''call-9''),
            (''type'', JStr ''recording''),
            (''status'', JStr ''available''),
            (''chunks'', JList []),
            (''processedAt'', JStr ''2024-01-01T00:00:05.000000'')]) [])"
  using recording_empty_chunks_written[where w = world_1 and ev = recording_event_1
          and kvs = "[(''serverCallId'', JStr ''call-9''),
            (''recordingStorageInfo'', JObj [(''recordingChunks'', JList [])]),
            (''status'', JStr ''failed'')]"]
        recording_empty_chunks_written[where w = world_1 and ev = recording_event_no_info
          and kvs = "[(''serverCallId'', JStr ''call-9'')]"]
  by (simp add: configured_def world_1_def recording_event_1_def recording_event_no_info_def
        get_json_def dict_get_def)

section \<open>The health reporter\<close>

text \<open>
  C7, as stated, fails: with the store endpoint unconfigured the status in the snapshot
  is the text \<^verbatim>\<open>not configured\<close>, with a space, not \<^verbatim>\<open>not_configured\<close>.
\<close>

theorem health_check_unconfigured_counterexample:
  "snapshot_status (fst (health_check world_unconfigured)) = Some (JStr ''not configured'')
   \<and> snapshot_status (fst (health_check world_unconfigured)) \<noteq> Some (JStr ''not_configured'')"
  by (simp add: health_check_def check_cosmos_def snapshot_status_def item_field_def
        ex_defs run_defs)

text \<open>
  C7, amended. The health check never raises: on every tick it produces a snapshot and
  logs it. The store status of the snapshot is \<^verbatim>\<open>healthy\<close> when the probe succeeds, is
  \<^verbatim>\<open>unhealthy: \<close> followed by the text of the captured exception when constructing the
  client or listing the containers fails, and is exactly \<^verbatim>\<open>not configured\<close>, with no
  client constructed, when the store endpoint is unconfigured.
\<close>

theorem health_check_snapshot:
  "(\<exists>snap. fst (health_check w) = Inr snap
       \<and> last (logged (snd (health_check w))) =
           (INFO, [Lit ''Health check complete: '', Dumps snap]))
   \<and> (\<not> configured w \<longrightarrow>
         snapshot_status (fst (health_check w)) = Some (JStr ''not configured'')
       \<and> clients_constructed (snd (health_check w)) = clients_constructed w)
   \<and> (configured w \<and> connect_fault w = None \<and> request_fault w ListContainers = None \<longrightarrow>
         snapshot_status (fst (health_check w)) = Some (JStr ''healthy''))
   \<and> (configured w \<and> connect_fault w = Some e \<longrightarrow>
         snapshot_status (fst (health_check w)) = Some (JStr (''unhealthy: '' @ str_exn e)))
   \<and> (configured w \<and> connect_fault w = None \<and> request_fault w ListContainers = Some e \<longrightarrow>
         snapshot_status (fst (health_check w)) = Some (JStr (''unhealthy: '' @ str_exn e)))"
  by (cases "configured w"; cases "connect_fault w"; cases "request_fault w ListContainers";
      simp add: health_check_def check_cosmos_def snapshot_status_def item_field_def run2_defs)

theorem health_check_snapshot_witness:
  "(snapshot_status (fst (health_check world_unconfigured)) = Some (JStr ''not configured'')
      \<and> clients_constructed (snd (health_check world_unconfigured))
          = clients_constructed world_unconfigured)
   \<and> snapshot_status (fst (health_check world_1)) = Some (JStr ''healthy'')
   \<and> snapshot_status (fst (health_check world_unreachable))
       = Some (JStr (''unhealthy: '' @ ''Service Unavailable''))
   \<and> snapshot_status (fst (health_check world_request_fails))
       = Some (JStr (''unhealthy: '' @ ''connection reset''))"
  using health_check_snapshot[of world_unconfigured]
        health_check_snapshot[of world_1]
        health_check_snapshot[of world_unreachable
          "HttpResponseError ''Service Unavailable'' (Some 503)"]
        health_check_snapshot[of world_request_fails "OtherException ''connection reset''"]
  by (simp add: configured_def world_1_def world_unconfigured_def world_unreachable_def
        world_request_fails_def)

section \<open>Events without an id\<close>





section \<open>Failure responses of the REST facade\<close>

lemma handle_errors_total: "\<exists>resp s'. handle_errors f s = (Inr resp, s')"
  by (cases "f s"; cases "fst (f s)"; cases "projl (fst (f s))")
     (auto simp: handle_errors_def io_defs app_logger_def)

text \<open>
  C9, as stated, fails: a request to \<^verbatim>\<open>/api/v1/sms/send\<close> without a body is answered with
  status 400 and the body \<^verbatim>\<open>{"error": "Request body required"}\<close>, which has no \<^verbatim>\<open>type\<close>
  field.
\<close>

theorem send_sms_empty_body_counterexample:
  "outcome_status (fst (send_sms sdk_ok (Inr JNull) app_1)) = Some 400
   \<and> outcome_field (fst (send_sms sdk_ok (Inr JNull) app_1)) ''error''
       = Some (JStr ''Request body required'')
   \<and> outcome_field (fst (send_sms sdk_ok (Inr JNull) app_1)) ''type'' = None"
  by (simp add: app_run_defs outcome_field_def outcome_status_def item_field_def)

text \<open>
  C9, amended. No exception escapes the decorated endpoint: \<^verbatim>\<open>send_sms\<close> always returns
  a response. Every exception raised inside a function that \<^verbatim>\<open>handle_errors\<close> decorates is
  answered with a body that has both an \<^verbatim>\<open>error\<close> and a \<^verbatim>\<open>type\<close> field, with status 400 for
  a \<^verbatim>\<open>ValueError\<close>, the upstream status code for a platform error that carries a non-zero
  one, and 500 for anything else. The inline validation of \<^verbatim>\<open>send_sms\<close> raises nothing: it
  answers a missing body, and a body that lacks one of \<^verbatim>\<open>from\<close>, \<^verbatim>\<open>to\<close> and \<^verbatim>\<open>message\<close> (the
  first one missing is named), with status 400 and a body that has an \<^verbatim>\<open>error\<close> field
  only.
\<close>

theorem rest_failure_responses:
  "(\<exists>resp. fst (send_sms k rq s) = Inr resp)
   \<and> (f s = (Inl e, s') \<longrightarrow>
        outcome_field (fst (handle_errors f s)) ''error'' \<noteq> None
      \<and> outcome_field (fst (handle_errors f s)) ''type'' \<noteq> None
      \<and> (e = ValueError m \<longrightarrow> outcome_status (fst (handle_errors f s)) = Some 400)
      \<and> (e = HttpResponseError m (Some n) \<and> n \<noteq> 0 \<longrightarrow>
            outcome_status (fst (handle_errors f s)) = Some n)
      \<and> ((\<forall>m'. e \<noteq> ValueError m')
            \<and> (\<forall>m' n'. n' \<noteq> 0 \<longrightarrow> e \<noteq> HttpResponseError m' (Some n')) \<longrightarrow>
            outcome_status (fst (handle_errors f s)) = Some 500))
   \<and> (rq = Inr data \<and> \<not> py_truthy data \<longrightarrow>
        send_sms k rq s =
          (Inr \<lparr>body = JObj [(''error'', JStr ''Request body required'')], status = 400\<rparr>, s))
   \<and> (rq = Inr data \<and> py_truthy data \<and> py_contains data ''from'' = Inr False \<longrightarrow>
        send_sms k rq s =
          (Inr \<lparr>body = JObj [(''error'', JStr ''Missing required field: from'')],
                status = 400\<rparr>, s))
   \<and> (rq = Inr data \<and> py_truthy data \<and> py_contains data ''from'' = Inr True
         \<and> py_contains data ''to'' = Inr False \<longrightarrow>
        send_sms k rq s =
          (Inr \<lparr>body = JObj [(''error'', JStr ''Missing required field: to'')],
                status = 400\<rparr>, s))
   \<and> (rq = Inr data \<and> py_truthy data \<and> py_contains data ''from'' = Inr True
         \<and> py_contains data ''to'' = Inr True \<and> py_contains data ''message'' = Inr False \<longrightarrow>
        send_sms k rq s =
          (Inr \<lparr>body = JObj [(''error'', JStr ''Missing required field: message'')],
                status = 400\<rparr>, s))"
proof (intro conjI impI)
  show "\<exists>resp. fst (send_sms k rq s) = Inr resp"
    using handle_errors_total[of "send_sms_view k rq" s] by (auto simp: send_sms_def)
next
  assume "rq = Inr data \<and> \<not> py_truthy data"
  then show "send_sms k rq s =
          (Inr \<lparr>body = JObj [(''error'', JStr ''Request body required'')], status = 400\<rparr>, s)"
    by (simp add: send_sms_def send_sms_view_def handle_errors_def io_defs)
next
  assume "rq = Inr data \<and> py_truthy data \<and> py_contains data ''from'' = Inr False"
  then show "send_sms k rq s =
          (Inr \<lparr>body = JObj [(''error'', JStr ''Missing required field: from'')],
                status = 400\<rparr>, s)"
    by (simp add: send_sms_def send_sms_view_def handle_errors_def io_defs)
next
  assume "rq = Inr data \<and> py_truthy data \<and> py_contains data ''from'' = Inr True
         \<and> py_contains data ''to'' = Inr False"
  then show "send_sms k rq s =
          (Inr \<lparr>body = JObj [(''error'', JStr ''Missing required field: to'')],
                status = 400\<rparr>, s)"
    by (simp add: send_sms_def send_sms_view_def handle_errors_def io_defs)
next
  assume "rq = Inr data \<and> py_truthy data \<and> py_contains data ''from'' = Inr True
         \<and> py_contains data ''to'' = Inr True \<and> py_contains data ''message'' = Inr False"
  then show "send_sms k rq s =
          (Inr \<lparr>body = JObj [(''error'', JStr ''Missing required field: message'')],
                status = 400\<rparr>, s)"
    by (simp add: send_sms_def send_sms_view_def handle_errors_def io_defs)
next
  assume f: "f s = (Inl e, s')"
  show "outcome_field (fst (handle_errors f s)) ''error'' \<noteq> None"
    using f by (cases e; cases "case e of HttpResponseError _ sc \<Rightarrow> sc | _ \<Rightarrow> None")
      (simp_all add: handle_errors_def io_defs app_logger_def outcome_field_def item_field_def)
  show "outcome_field (fst (handle_errors f s)) ''type'' \<noteq> None"
    using f by (cases e; cases "case e of HttpResponseError _ sc \<Rightarrow> sc | _ \<Rightarrow> None")
      (simp_all add: handle_errors_def io_defs app_logger_def outcome_field_def item_field_def)
  {
    assume "e = ValueError m"
    with f show "outcome_status (fst (handle_errors f s)) = Some 400"
      by (simp add: handle_errors_def io_defs app_logger_def outcome_status_def)
  }
  {
    assume "e = HttpResponseError m (Some n) \<and> n \<noteq> 0"
    with f show "outcome_status (fst (handle_errors f s)) = Some n"
      by (simp add: handle_errors_def io_defs app_logger_def outcome_status_def)
  }
  {
    assume "(\<forall>m'. e \<noteq> ValueError m')
            \<and> (\<forall>m' n'. n' \<noteq> 0 \<longrightarrow> e \<noteq> HttpResponseError m' (Some n'))"
    with f show "outcome_status (fst (handle_errors f s)) = Some 500"
      by (cases e; cases "case e of HttpResponseError _ sc \<Rightarrow> sc | _ \<Rightarrow> None")
         (auto simp add: handle_errors_def io_defs app_logger_def outcome_status_def)
  }
qed

lemma throttled_run:
  "send_sms_view sdk_throttled (Inr sms_request_1) app_1 =
     (Inl (HttpResponseError ''Too many requests'' (Some 429)),
      app_1\<lparr>credential_cached := True, sms_client_cached := True\<rparr>)"
  by (simp add: app_run_defs app_ex_defs)

lemma unconfigured_run:
  "send_sms_view sdk_ok (Inr sms_request_1) app_unconfigured =
     (Inl (ValueError ''ACS_ENDPOINT environment variable not set''), app_unconfigured)"
  by (simp add: app_run_defs app_ex_defs)

lemma list_body_run:
  "send_sms_view sdk_ok (Inr sms_request_list) app_1 =
     (Inl (TypeError ''list indices must be integers or slices, not str''),
      app_1\<lparr>credential_cached := True, sms_client_cached := True\<rparr>)"
  by (simp add: app_run_defs app_ex_defs)

theorem rest_failure_responses_witness:
  "(\<exists>resp. fst (send_sms sdk_ok (Inr sms_request_1) app_1) = Inr resp)
   \<and> outcome_status (fst (handle_errors (send_sms_view sdk_ok (Inr sms_request_1))
        app_unconfigured)) = Some 400
   \<and> outcome_status (fst (handle_errors (send_sms_view sdk_throttled (Inr sms_request_1))
        app_1)) = Some 429
   \<and> outcome_status (fst (handle_errors (send_sms_view sdk_ok (Inr sms_request_list))
        app_1)) = Some 500
   \<and> outcome_field (fst (handle_errors (send_sms_view sdk_throttled (Inr sms_request_1))
        app_1)) ''type'' \<noteq> None
   \<and> send_sms sdk_ok (Inr JNull) app_1 =
       (Inr \<lparr>body = JObj [(''error'', JStr ''Request body required'')], status = 400\<rparr>, app_1)
   \<and> send_sms sdk_ok (Inr sms_request_no_to) app_1 =
       (Inr \<lparr>body = JObj [(''error'', JStr ''Missing required field: to'')], status = 400\<rparr>,
        app_1)"
  using rest_failure_responses[where k = sdk_ok and rq = "Inr sms_request_1" and s = app_unconfigured
          and f = "send_sms_view sdk_ok (Inr sms_request_1)"
          and e = "ValueError ''ACS_ENDPOINT environment variable not set''"
          and s' = app_unconfigured
          and m = "''ACS_ENDPOINT environment variable not set''"]
        rest_failure_responses[where k = sdk_ok and rq = "Inr JNull" and s = app_1
          and f = "send_sms_view sdk_throttled (Inr sms_request_1)"
          and e = "HttpResponseError ''Too many requests'' (Some 429)"
          and s' = "app_1\<lparr>credential_cached := True, sms_client_cached := True\<rparr>"
          and m = "''Too many requests''" and n = 429 and data = JNull]
        rest_failure_responses[where k = sdk_ok and rq = "Inr sms_request_1" and s = app_1
          and f = "send_sms_view sdk_ok (Inr sms_request_list)"
          and e = "TypeError ''list indices must be integers or slices, not str''"
          and s' = "app_1\<lparr>credential_cached := True, sms_client_cached := True\<rparr>"]
        rest_failure_responses[where k = sdk_ok and rq = "Inr sms_request_no_to" and s = app_1
          and f = "send_sms_view sdk_ok (Inr sms_request_list)"
          and e = "TypeError ''list indices must be integers or slices, not str''"
          and s' = "app_1\<lparr>credential_cached := True, sms_client_cached := True\<rparr>"
          and data = sms_request_no_to]
        throttled_run unconfigured_run list_body_run
  by (simp add: sms_request_no_to_def)

end
